theory Spec2Isabelle
  imports Complex_Main "HOL-Library.Sublist"
begin

section \<open>JavaScript values\<close>

text \<open>
  The request configurations of the chat model manager are plain JavaScript objects
  assembled with the spread operator, so they are modelled as finite maps from property
  names to values. A property that holds \<open>undefined\<close> is present with value
  \<open>JUndefined\<close>, as it is after \<open>{ ...a, k: undefined }\<close>.
\<close>

datatype fn = safeFetch | handleLLMStart

datatype jsval =
    JUndefined
  | JBool bool
  | JNum real
  | JStr string
  | JFun fn
  | JConst string
  | JObj "(string \<times> jsval) list"
  | JArr "jsval list"

type_synonym ModelConfig = "string \<rightharpoonup> jsval"

text \<open>Thrown values: an \<open>Error\<close> object (message and optional cause), another object
  (its JSON text and its \<open>String(...)\<close> text), or a primitive (its \<open>String(...)\<close> text).\<close>

datatype thrown =
    Error string "string option"
  | ThrownObject string string
  | ThrownPrimitive string

definition newError :: "string \<Rightarrow> thrown" where
  "newError msg = Error msg None"

text \<open>Truthiness of an optional string, an optional flag and a property value.\<close>

definition truthy :: "string option \<Rightarrow> bool" where
  "truthy x = (case x of None \<Rightarrow> False | Some s \<Rightarrow> s \<noteq> [])"

definition truthyFlag :: "bool option \<Rightarrow> bool" where
  "truthyFlag x = (case x of None \<Rightarrow> False | Some b \<Rightarrow> b)"

fun truthyVal :: "jsval option \<Rightarrow> bool" where
  "truthyVal None = False"
| "truthyVal (Some JUndefined) = False"
| "truthyVal (Some (JBool b)) = b"
| "truthyVal (Some (JNum r)) = (r \<noteq> 0)"
| "truthyVal (Some (JStr s)) = (s \<noteq> [])"
| "truthyVal (Some (JFun f)) = True"
| "truthyVal (Some (JConst c)) = True"
| "truthyVal (Some (JObj kvs)) = True"
| "truthyVal (Some (JArr vs)) = True"

text \<open>\<open>a || b\<close> on strings, the second operand a plain string.\<close>

definition orStr :: "string option \<Rightarrow> string \<Rightarrow> string" where
  "orStr a b = (case a of None \<Rightarrow> b | Some s \<Rightarrow> if s = [] then b else s)"

text \<open>\<open>a || b\<close> where both operands may be undefined.\<close>

definition orOpt :: "string option \<Rightarrow> string option \<Rightarrow> string option" where
  "orOpt a b = (if truthy a then a else b)"

definition ofStr :: "string option \<Rightarrow> jsval" where
  "ofStr x = (case x of None \<Rightarrow> JUndefined | Some s \<Rightarrow> JStr s)"

definition ofFlag :: "bool option \<Rightarrow> jsval" where
  "ofFlag x = (case x of None \<Rightarrow> JUndefined | Some b \<Rightarrow> JBool b)"

definition ofNum :: "real option \<Rightarrow> jsval" where
  "ofNum x = (case x of None \<Rightarrow> JUndefined | Some r \<Rightarrow> JNum r)"

text \<open>\<open>s.includes(sub)\<close>.\<close>

fun str_includes :: "string \<Rightarrow> string \<Rightarrow> bool" where
  "str_includes [] sub = (sub = [])"
| "str_includes (c # cs) sub = (prefix sub (c # cs) \<or> str_includes cs sub)"

section \<open>Data model\<close>

text \<open>
  \<open>CustomModel\<close> is declared twice in the sources (two versions of \<open>aiParams.ts\<close>); the
  record carries the fields of both declarations. The first manager below reads
  \<open>name\<close>, the second one \<open>modelName\<close>, \<open>stream\<close> and \<open>temperature\<close> as well.
\<close>

record CustomModel =
  name :: string
  modelName :: string
  provider :: string
  baseUrl :: "string option"
  apiKey :: "string option"
  enabled :: bool
  isEmbeddingModel :: "bool option"
  isBuiltIn :: "bool option"
  enableCors :: "bool option"
  core :: "bool option"
  stream :: "bool option"
  temperature :: "real option"
  context_field :: "real option"
  openAIOrgId :: "string option"
  azureOpenAIApiInstanceName :: "string option"
  azureOpenAIApiDeploymentName :: "string option"
  azureOpenAIApiVersion :: "string option"
  azureOpenAIApiEmbeddingDeploymentName :: "string option"
  isO1Preview :: "bool option"

record SpecialSettings =
  maxCompletionTokens :: "real option"
  reasoningEffort :: "real option"

record AzureDeployment =
  modelKey :: string
  modelFamily :: string
  deploymentName :: string
  instanceName :: string
  apiVersion :: string
  apiKey :: string
  specialSettings :: "SpecialSettings option"

datatype ChainType = LLM_CHAIN | VAULT_QA_CHAIN | COPILOT_PLUS_CHAIN

datatype VAULT_VECTOR_STORE_STRATEGY = NEVER | ON_STARTUP | ON_MODE_SWITCH

text \<open>
  \<open>CopilotSettings\<close> (settings/model.ts), the fields the orchestration code reads.
  \<open>activeModels\<close> is optional because \<open>buildModelMap\<close> guards it with \<open>??\<close>;
  \<open>azureOpenAIApiDeploymentName\<close> is read by the second manager only.
\<close>

record CopilotSettings =
  openAIApiKey :: string
  openAIOrgId :: string
  cohereApiKey :: string
  anthropicApiKey :: string
  modelConfigs :: "string \<rightharpoonup> ModelConfig"
  azureOpenAIApiKey :: string
  azureOpenAIApiInstanceName :: string
  azureOpenAIApiDeploymentName :: string
  azureOpenAIApiVersion :: string
  googleApiKey :: string
  openRouterAiApiKey :: string
  groqApiKey :: string
  defaultChainType :: ChainType
  defaultModelKey :: string
  temperature :: real
  maxTokens :: real
  stream :: "bool option"
  userSystemPrompt :: string
  indexVaultToVectorStore :: VAULT_VECTOR_STORE_STRATEGY
  debug :: bool
  maxSourceChunks :: real
  activeModels :: "CustomModel list option"
  azureOpenAIApiDeployments :: "AzureDeployment list"

datatype ChatModelProviders =
    OPENAI | AZURE_OPENAI | ANTHROPIC | COHEREAI | GOOGLE
  | OPENROUTERAI | OLLAMA | LM_STUDIO | GROQ | OPENAI_FORMAT

datatype ChatConstructorType =
    ChatOpenAI | ChatAnthropic | ChatCohere | ChatGoogleGenerativeAI | ChatOllama | ChatGroq

fun CHAT_PROVIDER_CONSTRUCTORS :: "ChatModelProviders \<Rightarrow> ChatConstructorType" where
  "CHAT_PROVIDER_CONSTRUCTORS OPENAI = ChatOpenAI"
| "CHAT_PROVIDER_CONSTRUCTORS AZURE_OPENAI = ChatOpenAI"
| "CHAT_PROVIDER_CONSTRUCTORS ANTHROPIC = ChatAnthropic"
| "CHAT_PROVIDER_CONSTRUCTORS COHEREAI = ChatCohere"
| "CHAT_PROVIDER_CONSTRUCTORS GOOGLE = ChatGoogleGenerativeAI"
| "CHAT_PROVIDER_CONSTRUCTORS OPENROUTERAI = ChatOpenAI"
| "CHAT_PROVIDER_CONSTRUCTORS OLLAMA = ChatOllama"
| "CHAT_PROVIDER_CONSTRUCTORS LM_STUDIO = ChatOpenAI"
| "CHAT_PROVIDER_CONSTRUCTORS GROQ = ChatGroq"
| "CHAT_PROVIDER_CONSTRUCTORS OPENAI_FORMAT = ChatOpenAI"

text \<open>
  The parts of the repository that the managers import and that are not among the
  sources: the string values of the enum \<open>ChatModelProviders\<close> and the text
  \<open>DEFAULT_SYSTEM_PROMPT\<close> (constants.ts), \<open>getDecryptedKey\<close> (encryptionService.ts),
  \<open>err2String\<close> (utils.ts) and \<open>getModelKeyFromModel\<close> (the settings module of the
  second manager). They are parameters of every definition that uses them.
  \<open>providerOf\<close> reads the enum's value table backwards: the member whose value is the
  given provider tag, if any.
\<close>

record env =
  providerOf :: "string \<Rightarrow> ChatModelProviders option"
  DEFAULT_SYSTEM_PROMPT :: string
  getDecryptedKey :: "string \<Rightarrow> string"
  err2String :: "thrown \<Rightarrow> string"
  getModelKeyFromModel :: "CustomModel \<Rightarrow> string"

section \<open>The chat model registry\<close>

record RegistryEntry =
  hasApiKey :: bool
  AIConstructor :: ChatConstructorType
  vendor :: string

text \<open>
  A constructed chat model (a client object of an external library): its class, the
  configuration object handed to its constructor, and the two properties the
  orchestration code reads back from it, \<open>modelName\<close> and \<open>model\<close>.
\<close>

record BaseChatModel =
  modelClass :: ChatConstructorType
  ctorArgs :: ModelConfig
  inst_modelName :: "string option"
  inst_model :: "string option"

text \<open>The settings store (settings atom and the user's model key and chain type atoms)
  together with the fields of \<open>ChatModelManager\<close> and the notices shown to the user
  so far (\<open>new Notice(...)\<close>). Console output is not modelled. The array
  \<open>BUILTIN_CHAT_MODELS\<close> of constants.ts is part of the store because
  \<open>createChainWithNewModel\<close> writes to the fields of its first element. The listeners
  registered with the store (\<open>subscribeTo...Change\<close>) are not run by the definitions
  below: each definition is one call of one method.\<close>

record store =
  settings :: CopilotSettings
  userModelKey :: "string option"
  userChainType :: "ChainType option"
  chatModel :: "BaseChatModel option"
  modelMap :: "string \<rightharpoonup> RegistryEntry"
  notices :: "string list"
  BUILTIN_CHAT_MODELS :: "CustomModel list"

definition getModelKey :: "'a store_scheme \<Rightarrow> string" where
  "getModelKey s = (case userModelKey s of Some k \<Rightarrow> k | None \<Rightarrow> defaultModelKey (settings s))"

definition setModelKey :: "string \<Rightarrow> 'a store_scheme \<Rightarrow> 'a store_scheme" where
  "setModelKey k s = s\<lparr>userModelKey := Some k\<rparr>"



text \<open>The model key of a descriptor: \<open>`${model.name}|${model.provider}`\<close>.\<close>

definition modelKeyOf :: "CustomModel \<Rightarrow> string" where
  "modelKeyOf model = name model @ ''|'' @ provider model"

fun providerApiKeyMap :: "CopilotSettings \<Rightarrow> ChatModelProviders \<Rightarrow> string" where
  "providerApiKeyMap st OPENAI = openAIApiKey st"
| "providerApiKeyMap st GOOGLE = googleApiKey st"
| "providerApiKeyMap st AZURE_OPENAI = azureOpenAIApiKey st"
| "providerApiKeyMap st ANTHROPIC = anthropicApiKey st"
| "providerApiKeyMap st COHEREAI = cohereApiKey st"
| "providerApiKeyMap st OPENROUTERAI = openRouterAiApiKey st"
| "providerApiKeyMap st GROQ = groqApiKey st"
| "providerApiKeyMap st OLLAMA = ''default-key''"
| "providerApiKeyMap st LM_STUDIO = ''default-key''"
| "providerApiKeyMap st OPENAI_FORMAT = ''default-key''"

text \<open>\<open>getProviderConstructor\<close>: throws for a provider tag that is no enum value.\<close>

definition getProviderConstructor :: "env \<Rightarrow> CustomModel \<Rightarrow> thrown + ChatConstructorType" where
  "getProviderConstructor E model =
     (case providerOf E (provider model) of
        None \<Rightarrow> Inl (newError (''Unknown provider: '' @ provider model @ '' for model: '' @ name model))
      | Some p \<Rightarrow> Inr (CHAT_PROVIDER_CONSTRUCTORS p))"

text \<open>
  The body of the \<open>forEach\<close> callback of \<open>buildModelMap\<close>. The call of
  \<open>getProviderConstructor\<close> comes after the check that the provider is an enum value,
  so it cannot throw there.
\<close>

definition buildModelMap_step ::
  "env \<Rightarrow> CopilotSettings \<Rightarrow> (string \<rightharpoonup> RegistryEntry) \<Rightarrow> CustomModel \<Rightarrow> (string \<rightharpoonup> RegistryEntry)" where
  "buildModelMap_step E st mm model =
     (if enabled model then
        (case providerOf E (provider model) of
           None \<Rightarrow> mm
         | Some p \<Rightarrow>
             (let constructor = CHAT_PROVIDER_CONSTRUCTORS p;
                  apiKey = orStr (CustomModel.apiKey model) (providerApiKeyMap st p);
                  modelKey = modelKeyOf model
              in mm(modelKey \<mapsto>
                   \<lparr>hasApiKey = (truthy (CustomModel.apiKey model) \<or> apiKey \<noteq> []),
                    AIConstructor = constructor,
                    vendor = provider model\<rparr>)))
      else mm)"

definition buildModelMap :: "env \<Rightarrow> 'a store_scheme \<Rightarrow> 'a store_scheme" where
  "buildModelMap E s =
     (let allModels = (case activeModels (settings s) of
                         None \<Rightarrow> BUILTIN_CHAT_MODELS s
                       | Some ms \<Rightarrow> ms)
      in s\<lparr>modelMap := foldl (buildModelMap_step E (settings s)) Map.empty allModels\<rparr>)"

section \<open>The request configuration builders (first manager)\<close>

definition notice :: "string \<Rightarrow> 'a store_scheme \<Rightarrow> 'a store_scheme" where
  "notice msg s = s\<lparr>notices := notices s @ [msg]\<rparr>"

text \<open>\<open>cfg?.key || dflt\<close> on a stored model configuration that may be missing.\<close>

definition storedOr :: "ModelConfig option \<Rightarrow> string \<Rightarrow> jsval \<Rightarrow> jsval" where
  "storedOr cfg key dflt =
     (case cfg of
        None \<Rightarrow> dflt
      | Some c \<Rightarrow> if truthyVal (c key) then the (c key) else dflt)"

definition fetchOf :: "CustomModel \<Rightarrow> jsval" where
  "fetchOf customModel = (if truthyFlag (enableCors customModel) then JFun safeFetch else JUndefined)"

definition handleAzureOpenAIExtraArgs ::
  "'a store_scheme \<Rightarrow> bool \<Rightarrow> real \<Rightarrow> real \<Rightarrow> (string \<times> jsval) list" where
  "handleAzureOpenAIExtraArgs s isO1PreviewModel maxTok temp =
     (let modelConfig = modelConfigs (settings s) (getModelKey s)
      in if isO1PreviewModel then
           [(''maxCompletionTokens'', JNum maxTok),
            (''temperature'', JNum 1),
            (''extraParams'',
               JObj (case modelConfig of
                       None \<Rightarrow> []
                     | Some c \<Rightarrow>
                         if truthyVal (c ''reasoningEffort'')
                         then [(''reasoning_effort'', the (c ''reasoningEffort''))]
                         else []))]
         else
           [(''maxTokens'', JNum maxTok),
            (''temperature'', JNum temp)])"

definition safetySettings :: jsval where
  "safetySettings = JArr
     [JObj [(''category'', JConst ''HARM_CATEGORY_SEXUALLY_EXPLICIT''), (''threshold'', JConst ''BLOCK_NONE'')],
      JObj [(''category'', JConst ''HARM_CATEGORY_HATE_SPEECH''), (''threshold'', JConst ''BLOCK_NONE'')],
      JObj [(''category'', JConst ''HARM_CATEGORY_DANGEROUS_CONTENT''), (''threshold'', JConst ''BLOCK_NONE'')],
      JObj [(''category'', JConst ''HARM_CATEGORY_HARASSMENT''), (''threshold'', JConst ''BLOCK_NONE'')]]"

definition anthropicHeaders :: jsval where
  "anthropicHeaders = JObj [(''anthropic-dangerous-direct-browser-access'', JStr ''true'')]"

text \<open>The table \<open>providerConfig\<close> of \<open>getModelConfig\<close>, one object literal per provider.\<close>

fun providerConfig ::
  "env \<Rightarrow> 'a store_scheme \<Rightarrow> CustomModel \<Rightarrow> ChatModelProviders \<Rightarrow> (string \<times> jsval) list" where
  "providerConfig E s customModel OPENAI =
     [(''modelName'', JStr (name customModel)),
      (''openAIApiKey'', JStr (getDecryptedKey E
          (orStr (CustomModel.apiKey customModel) (openAIApiKey (settings s))))),
      (''configuration'', JObj [(''baseURL'', ofStr (baseUrl customModel)),
                                (''fetch'', fetchOf customModel)])]
     @ handleAzureOpenAIExtraArgs s (name customModel = ''o1-preview'')
         (maxTokens (settings s)) (CopilotSettings.temperature (settings s))"
| "providerConfig E s customModel ANTHROPIC =
     [(''anthropicApiKey'', JStr (getDecryptedKey E
          (orStr (CustomModel.apiKey customModel) (anthropicApiKey (settings s))))),
      (''modelName'', JStr (name customModel)),
      (''anthropicApiUrl'', ofStr (baseUrl customModel)),
      (''clientOptions'', JObj [(''defaultHeaders'', anthropicHeaders),
                                (''fetch'', fetchOf customModel)])]"
| "providerConfig E s customModel AZURE_OPENAI =
     [(''azureOpenAIApiKey'', JStr (getDecryptedKey E
          (orStr (CustomModel.apiKey customModel) (azureOpenAIApiKey (settings s))))),
      (''azureOpenAIApiInstanceName'',
          JStr (orStr (CustomModel.azureOpenAIApiInstanceName customModel) [])),
      (''azureOpenAIApiDeploymentName'',
          (if providerOf E (provider customModel) = Some AZURE_OPENAI
           then storedOr (modelConfigs (settings s) (getModelKey s))
                  ''azureOpenAIApiDeploymentName'' (JStr [])
           else JStr [])),
      (''azureOpenAIApiVersion'', JStr (CopilotSettings.azureOpenAIApiVersion (settings s)))]
     @ handleAzureOpenAIExtraArgs s (name customModel = ''o1-preview'')
         (maxTokens (settings s)) (CopilotSettings.temperature (settings s))
     @ [(''configuration'', JObj [(''baseURL'', ofStr (baseUrl customModel)),
                                  (''fetch'', fetchOf customModel)])]
     @ (if name customModel = ''o1-preview''
        then [(''callbacks'', JArr [JObj [(''handleLLMStart'', JFun handleLLMStart)]])]
        else [])"
| "providerConfig E s customModel COHEREAI =
     [(''apiKey'', JStr (getDecryptedKey E
          (orStr (CustomModel.apiKey customModel) (cohereApiKey (settings s))))),
      (''model'', JStr (name customModel))]"
| "providerConfig E s customModel GOOGLE =
     [(''apiKey'', JStr (getDecryptedKey E
          (orStr (CustomModel.apiKey customModel) (googleApiKey (settings s))))),
      (''modelName'', JStr (name customModel)),
      (''safetySettings'', safetySettings),
      (''baseUrl'', ofStr (baseUrl customModel))]"
| "providerConfig E s customModel OPENROUTERAI =
     [(''modelName'', JStr (name customModel)),
      (''openAIApiKey'', JStr (getDecryptedKey E
          (orStr (CustomModel.apiKey customModel) (openRouterAiApiKey (settings s))))),
      (''configuration'',
          JObj [(''baseURL'', JStr (orStr (baseUrl customModel) ''https://openrouter.ai/api/v1'')),
                (''fetch'', fetchOf customModel)])]"
| "providerConfig E s customModel GROQ =
     [(''apiKey'', JStr (getDecryptedKey E
          (orStr (CustomModel.apiKey customModel) (groqApiKey (settings s))))),
      (''modelName'', JStr (name customModel))]"
| "providerConfig E s customModel OLLAMA =
     [(''model'', JStr (name customModel)),
      (''apiKey'', JStr (orStr (CustomModel.apiKey customModel) ''default-key'')),
      (''baseUrl'', JStr (orStr (baseUrl customModel) ''http://localhost:11434''))]"
| "providerConfig E s customModel LM_STUDIO =
     [(''modelName'', JStr (name customModel)),
      (''openAIApiKey'', JStr (orStr (CustomModel.apiKey customModel) ''default-key'')),
      (''configuration'',
          JObj [(''baseURL'', JStr (orStr (baseUrl customModel) ''http://localhost:1234/v1'')),
                (''fetch'', fetchOf customModel)])]"
| "providerConfig E s customModel OPENAI_FORMAT =
     [(''modelName'', JStr (name customModel)),
      (''openAIApiKey'', JStr (getDecryptedKey E
          (orStr (CustomModel.apiKey customModel) (openAIApiKey (settings s))))),
      (''configuration'', JObj [(''baseURL'', ofStr (baseUrl customModel)),
                                (''fetch'', fetchOf customModel),
                                (''dangerouslyAllowBrowser'', JBool True)])]
     @ handleAzureOpenAIExtraArgs s (name customModel = ''o1-preview'')
         (maxTokens (settings s)) (CopilotSettings.temperature (settings s))"

text \<open>
  An object literal as a map: a later property overrides an earlier one with the same
  name, so the list is read from the back.
\<close>

definition obj :: "(string \<times> jsval) list \<Rightarrow> ModelConfig" where
  "obj kvs = map_of (rev kvs)"

definition invalidMaxTokens :: string where
  "invalidMaxTokens = ''Invalid maxTokens value in settings. Please use a positive integer.''"

definition invalidTemperature :: string where
  "invalidTemperature =
     ''Invalid temperature value in settings. Please use a number between 0 and 2.''"

text \<open>
  \<open>getModelConfig\<close> of the first manager. Numbers are reals here, so the
  \<open>typeof ... !== "number"\<close> tests are false and \<open>Number.isInteger\<close> tests that a
  number equals its floor. Each validation failure shows a notice and throws.
\<close>

definition getModelConfig ::
  "env \<Rightarrow> CustomModel \<Rightarrow> 'a store_scheme \<Rightarrow> (thrown + ModelConfig) \<times> 'a store_scheme" where
  "getModelConfig E customModel s =
     (let st = settings s;
          modelKey = getModelKey s;
          modelName = name customModel;
          baseConfig = obj
            [(''modelName'', JStr modelName),
             (''temperature'', JNum (CopilotSettings.temperature st)),
             (''streaming'', JBool True),
             (''maxRetries'', JNum 3),
             (''maxConcurrency'', JNum 3),
             (''enableCors'', ofFlag (enableCors customModel)),
             (''azureOpenAIApiDeploymentName'',
                storedOr (modelConfigs st modelKey) ''azureOpenAIApiDeploymentName'' (JStr [])),
             (''azureOpenAIApiInstanceName'',
                storedOr (modelConfigs st modelKey) ''azureOpenAIApiInstanceName'' (JStr [])),
             (''azureOpenAIApiVersion'',
                storedOr (modelConfigs st modelKey) ''azureOpenAIApiVersion'' (JStr []))]
      in if maxTokens st \<le> 0 \<or> of_int \<lfloor>maxTokens st\<rfloor> \<noteq> maxTokens st then
           (Inl (newError invalidMaxTokens), notice invalidMaxTokens s)
         else if CopilotSettings.temperature st < 0 \<or> CopilotSettings.temperature st > 2 then
           (Inl (newError invalidTemperature), notice invalidTemperature s)
         else
           (let selectedProviderConfig =
                  (case providerOf E (provider customModel) of
                     None \<Rightarrow> Map.empty
                   | Some p \<Rightarrow> obj (providerConfig E s customModel p));
                withOrgId =
                  (if providerOf E (provider customModel) = Some OPENAI
                      \<and> CopilotSettings.openAIOrgId st \<noteq> []
                   then selectedProviderConfig
                          (''openAIOrgId'' \<mapsto> JStr (getDecryptedKey E (CopilotSettings.openAIOrgId st)))
                   else selectedProviderConfig)
            in (Inr (baseConfig ++ withOrgId), s)))"

definition specialOf :: "AzureDeployment \<Rightarrow> (SpecialSettings \<Rightarrow> real option) \<Rightarrow> jsval" where
  "specialOf deployment field =
     (case specialSettings deployment of None \<Rightarrow> JUndefined | Some sp \<Rightarrow> ofNum (field sp))"

text \<open>
  \<open>getAzureModelConfig\<close>: the deployment is looked up under the current model key of
  the store, not under the key of the descriptor.
\<close>

definition getAzureModelConfig ::
  "env \<Rightarrow> CustomModel \<Rightarrow> 'a store_scheme \<Rightarrow> thrown + ModelConfig" where
  "getAzureModelConfig E customModel s =
     (let st = settings s;
          modelKey = getModelKey s;
          isO1PreviewModel = (name customModel = ''o1-preview'')
      in case find (\<lambda>d. AzureDeployment.modelKey d = modelKey) (azureOpenAIApiDeployments st) of
           None \<Rightarrow> Inl (newError (''No Azure deployment found for model: '' @ modelKey))
         | Some deployment \<Rightarrow>
             (let baseConfig = obj
                    [(''modelName'', JStr (name customModel)),
                     (''temperature'', JNum (CopilotSettings.temperature st)),
                     (''streaming'', JBool True),
                     (''maxRetries'', JNum 3),
                     (''maxConcurrency'', JNum 3),
                     (''enableCors'', ofFlag (enableCors customModel)),
                     (''azureOpenAIApiDeploymentName'', JStr (deploymentName deployment)),
                     (''azureOpenAIApiInstanceName'', JStr (instanceName deployment)),
                     (''azureOpenAIApiVersion'', JStr (apiVersion deployment))];
                  azureConfig = baseConfig ++ obj
                    [(''azureOpenAIApiKey'', JStr (getDecryptedKey E (AzureDeployment.apiKey deployment))),
                     (''azureOpenAIApiInstanceName'', JStr (instanceName deployment)),
                     (''azureOpenAIApiDeploymentName'', JStr (deploymentName deployment)),
                     (''azureOpenAIApiVersion'', JStr (apiVersion deployment)),
                     (''configuration'', JObj [(''baseURL'', ofStr (baseUrl customModel)),
                                               (''fetch'', fetchOf customModel)])]
              in Inr (if isO1PreviewModel then
                        azureConfig
                          (''maxCompletionTokens'' \<mapsto> specialOf deployment maxCompletionTokens,
                           ''reasoningEffort'' \<mapsto> specialOf deployment reasoningEffort,
                           ''temperature'' \<mapsto> JNum 1,
                           ''streaming'' \<mapsto> JBool False,
                           ''maxTokens'' \<mapsto> JUndefined)
                      else azureConfig)))"




section \<open>Activation of a model (first manager)\<close>

text \<open>
  The client classes belong to external libraries and the calls go over the network, so
  what they do is a parameter: \<open>construct\<close> is \<open>new AIConstructor(config)\<close>, which
  may throw, and \<open>invoke\<close> is one \<open>invoke\<close> call, given the number of the call within
  the operation, the client and the text of the user message; it yields the content of
  the response or throws.
\<close>

record client =
  construct :: "ChatConstructorType \<Rightarrow> ModelConfig \<Rightarrow> thrown + BaseChatModel"
  invoke :: "nat \<Rightarrow> BaseChatModel \<Rightarrow> string \<Rightarrow> thrown + jsval"

definition getChatModel :: "'a store_scheme \<Rightarrow> thrown + BaseChatModel" where
  "getChatModel s =
     (case chatModel s of
        None \<Rightarrow> Inl (newError
          ''No valid chat model available. Please check your API key settings.'')
      | Some m \<Rightarrow> Inr m)"

text \<open>The conditional that picks the builder in \<open>setChatModel\<close>.\<close>

definition modelConfigFor ::
  "env \<Rightarrow> CustomModel \<Rightarrow> 'a store_scheme \<Rightarrow> (thrown + ModelConfig) \<times> 'a store_scheme" where
  "modelConfigFor E model s =
     (if providerOf E (provider model) = Some AZURE_OPENAI
      then (getAzureModelConfig E model s, s)
      else getModelConfig E model s)"





section \<open>The chain manager\<close>

datatype sender = AI_SENDER | USER_SENDER

record ChatMessage =
  message :: string
  sender :: sender
  isVisible :: bool
  timestamp :: string

datatype promptMessage =
    RoleMessage sender string
  | MessagesPlaceholder string
  | HumanMessagePromptTemplate string

type_synonym ChatPromptTemplate = "promptMessage list"

record HybridRetriever =
  embeddingsAPI :: nat
  minSimilarityScore :: real
  maxK :: real
  salientTerms :: "string list"
  retrieverDebug :: bool

text \<open>
  \<open>chainFactory.ts\<close> is not among the sources. A chain is what the specification says it
  is, the binding of a model, a memory store, a prompt template and optionally a
  retriever, so a chain is modelled as the record of the arguments it was created
  from (the memory is the one memory of the memory manager and is left out).
\<close>

datatype RunnableSequence =
    LLMChain BaseChatModel ChatPromptTemplate "nat option"
  | ConversationalRetrievalChain BaseChatModel HybridRetriever string bool



text \<open>The static fields of \<open>ChainManager\<close> and the prompt of the prompt manager.\<close>

record manager = store +
  chain :: "RunnableSequence option"
  retrievalChain :: "RunnableSequence option"
  chatPrompt :: ChatPromptTemplate





definition systemFreePrompt :: ChatPromptTemplate where
  "systemFreePrompt = [MessagesPlaceholder ''history'', HumanMessagePromptTemplate ''{input}'']"









section \<open>Running a turn\<close>








section \<open>Assembling the response\<close>






section \<open>The second manager\<close>

text \<open>
  The second \<open>ChatModelManager\<close> of the sources: its methods are async, it recognises the
  reasoning model by a substring of \<open>modelName\<close>, and it pings a model before it
  activates it. Its \<open>buildModelMap\<close> is the one above with \<open>getModelKeyFromModel\<close>
  for the key.
\<close>

definition isO1PreviewModel :: "string \<Rightarrow> bool" where
  "isO1PreviewModel mn = str_includes mn ''azure-openai/models/o1-preview''"

definition o1FieldsRequired :: string where
  "o1FieldsRequired = ''Azure OpenAI API key, instance name, deployment name, and API version are required. Please check your settings.''"

text \<open>\<open>validateO1PreviewModel\<close> (the method): it throws, or returns the descriptor with
  the API version written into it.\<close>

definition validateO1PreviewModel ::
  "env \<Rightarrow> CustomModel \<Rightarrow> 'a store_scheme \<Rightarrow> thrown + CustomModel" where
  "validateO1PreviewModel E customModel s =
     (if providerOf E (provider customModel) \<noteq> Some AZURE_OPENAI
         \<or> \<not> isO1PreviewModel (modelName customModel)
      then Inr customModel
      else
        (let st = settings s;
             apiKey = orStr (CustomModel.apiKey customModel) (azureOpenAIApiKey st);
             instanceName = orStr (CustomModel.azureOpenAIApiInstanceName customModel)
                              (CopilotSettings.azureOpenAIApiInstanceName st);
             deploymentName = orStr (CustomModel.azureOpenAIApiDeploymentName customModel)
                                (CopilotSettings.azureOpenAIApiDeploymentName st);
             apiVersion = orStr (CustomModel.azureOpenAIApiVersion customModel)
                            (CopilotSettings.azureOpenAIApiVersion st)
         in if apiKey = [] \<or> instanceName = [] \<or> deploymentName = [] \<or> apiVersion = []
            then Inl (newError o1FieldsRequired)
            else Inr (customModel\<lparr>CustomModel.azureOpenAIApiVersion := Some apiVersion\<rparr>)))"

definition streamingOf :: "CustomModel \<Rightarrow> jsval" where
  "streamingOf customModel =
     JBool (case CustomModel.stream customModel of None \<Rightarrow> True | Some b \<Rightarrow> b)"

fun providerConfig_async ::
  "env \<Rightarrow> 'a store_scheme \<Rightarrow> CustomModel \<Rightarrow> ChatModelProviders \<Rightarrow> (string \<times> jsval) list" where
  "providerConfig_async E s customModel OPENAI =
     [(''openAIApiKey'', JStr (getDecryptedKey E
          (orStr (CustomModel.apiKey customModel) (openAIApiKey (settings s))))),
      (''openAIOrgId'', JStr (getDecryptedKey E
          (orStr (CustomModel.openAIOrgId customModel) (CopilotSettings.openAIOrgId (settings s))))),
      (''configuration'', JObj [(''baseURL'', ofStr (baseUrl customModel)),
                                (''fetch'', fetchOf customModel)])]"
| "providerConfig_async E s customModel AZURE_OPENAI =
     [(''azureOpenAIApiKey'', JStr (getDecryptedKey E
          (orStr (CustomModel.apiKey customModel) (azureOpenAIApiKey (settings s))))),
      (''azureOpenAIApiInstanceName'',
          JStr (orStr (CustomModel.azureOpenAIApiInstanceName customModel)
                  (CopilotSettings.azureOpenAIApiInstanceName (settings s)))),
      (''azureOpenAIApiDeploymentName'',
          JStr (orStr (CustomModel.azureOpenAIApiDeploymentName customModel)
                  (CopilotSettings.azureOpenAIApiDeploymentName (settings s)))),
      (''azureOpenAIApiVersion'',
          JStr (orStr (CustomModel.azureOpenAIApiVersion customModel)
                  (CopilotSettings.azureOpenAIApiVersion (settings s)))),
      (''configuration'', JObj [(''baseURL'', ofStr (baseUrl customModel)),
                                (''fetch'', fetchOf customModel)]),
      (''streaming'', JBool False)]"
| "providerConfig_async E s customModel ANTHROPIC =
     [(''anthropicApiKey'', JStr (getDecryptedKey E
          (orStr (CustomModel.apiKey customModel) (anthropicApiKey (settings s))))),
      (''modelName'', JStr (modelName customModel)),
      (''anthropicApiUrl'', ofStr (baseUrl customModel)),
      (''clientOptions'', JObj [(''defaultHeaders'', anthropicHeaders),
                                (''fetch'', fetchOf customModel)]),
      (''streaming'', streamingOf customModel)]"
| "providerConfig_async E s customModel COHEREAI =
     [(''apiKey'', JStr (getDecryptedKey E
          (orStr (CustomModel.apiKey customModel) (cohereApiKey (settings s))))),
      (''model'', JStr (modelName customModel)),
      (''streaming'', streamingOf customModel)]"
| "providerConfig_async E s customModel GOOGLE =
     [(''apiKey'', JStr (getDecryptedKey E
          (orStr (CustomModel.apiKey customModel) (googleApiKey (settings s))))),
      (''modelName'', JStr (modelName customModel)),
      (''safetySettings'', safetySettings),
      (''baseUrl'', ofStr (baseUrl customModel)),
      (''streaming'', streamingOf customModel)]"
| "providerConfig_async E s customModel OPENROUTERAI =
     [(''openAIApiKey'', JStr (getDecryptedKey E
          (orStr (CustomModel.apiKey customModel) (openRouterAiApiKey (settings s))))),
      (''configuration'',
          JObj [(''baseURL'', JStr (orStr (baseUrl customModel) ''https://openrouter.ai/api/v1'')),
                (''fetch'', fetchOf customModel)]),
      (''streaming'', streamingOf customModel)]"
| "providerConfig_async E s customModel GROQ =
     [(''apiKey'', JStr (getDecryptedKey E
          (orStr (CustomModel.apiKey customModel) (groqApiKey (settings s))))),
      (''modelName'', JStr (modelName customModel)),
      (''streaming'', streamingOf customModel)]"
| "providerConfig_async E s customModel OLLAMA =
     [(''model'', JStr (modelName customModel)),
      (''apiKey'', JStr (orStr (CustomModel.apiKey customModel) ''default-key'')),
      (''baseUrl'', JStr (orStr (baseUrl customModel) ''http://localhost:11434'')),
      (''streaming'', streamingOf customModel)]"
| "providerConfig_async E s customModel LM_STUDIO =
     [(''modelName'', JStr (modelName customModel)),
      (''openAIApiKey'', JStr (orStr (CustomModel.apiKey customModel) ''default-key'')),
      (''configuration'',
          JObj [(''baseURL'', JStr (orStr (baseUrl customModel) ''http://localhost:1234/v1'')),
                (''fetch'', fetchOf customModel)]),
      (''streaming'', streamingOf customModel)]"
| "providerConfig_async E s customModel OPENAI_FORMAT =
     [(''openAIApiKey'', JStr (getDecryptedKey E
          (orStr (CustomModel.apiKey customModel) (openAIApiKey (settings s))))),
      (''configuration'', JObj [(''baseURL'', ofStr (baseUrl customModel)),
                                (''fetch'', fetchOf customModel),
                                (''dangerouslyAllowBrowser'', JBool True)]),
      (''streaming'', streamingOf customModel)]"

text \<open>\<open>getModelConfig\<close> of the second manager: the configuration and the descriptor as
  \<open>validateO1PreviewModel\<close> left it.\<close>

definition getModelConfig_async ::
  "env \<Rightarrow> CustomModel \<Rightarrow> 'a store_scheme \<Rightarrow> thrown + (ModelConfig \<times> CustomModel)" where
  "getModelConfig_async E customModel s =
     (let st = settings s;
          isO1Preview = isO1PreviewModel (modelName customModel)
      in case (if isO1Preview \<and> providerOf E (provider customModel) = Some AZURE_OPENAI
               then validateO1PreviewModel E customModel s
               else Inr customModel) of
           Inl e \<Rightarrow> Inl e
         | Inr customModel \<Rightarrow>
             (let baseConfig = obj
                    ([(''modelName'', JStr (modelName customModel)),
                      (''temperature'',
                         JNum (if isO1Preview then 1
                               else (case CustomModel.temperature customModel of
                                       Some t \<Rightarrow> t
                                     | None \<Rightarrow> CopilotSettings.temperature st))),
                      (''stream'',
                         JBool (if isO1Preview then False
                                else (case CustomModel.stream customModel of
                                        Some b \<Rightarrow> b
                                      | None \<Rightarrow>
                                          (case CopilotSettings.stream st of
                                             Some b \<Rightarrow> b
                                           | None \<Rightarrow> True)))),
                      (''maxRetries'', JNum 3),
                      (''maxConcurrency'', JNum 3)]
                     @ (if isO1Preview then [(''maxCompletionTokens'', JNum (maxTokens st))]
                        else []));
                  selectedProviderConfig =
                    (case providerOf E (provider customModel) of
                       None \<Rightarrow> Map.empty
                     | Some p \<Rightarrow> obj (providerConfig_async E s customModel p))
              in Inr (baseConfig ++ selectedProviderConfig, customModel)))"

text \<open>One attempt of \<open>ping\<close>: \<open>None\<close> when it returns, the thrown value otherwise.\<close>

definition tryPing_async ::
  "env \<Rightarrow> client \<Rightarrow> nat \<Rightarrow> CustomModel \<Rightarrow> bool \<Rightarrow> 'a store_scheme \<Rightarrow> thrown option" where
  "tryPing_async E C attempt model cors s =
     (let modelToTest = model\<lparr>enableCors := Some cors\<rparr>;
          isO1Preview = isO1PreviewModel (modelName modelToTest)
      in if providerOf E (provider modelToTest) = Some AZURE_OPENAI \<and> isO1Preview then None
         else
           (case getModelConfig_async E modelToTest s of
              Inl e \<Rightarrow> Some e
            | Inr (modelConfig, m) \<Rightarrow>
                (let pingConfig =
                       (if isO1Preview
                        then (modelConfig(''maxCompletionTokens'' \<mapsto> JNum 10))(''maxTokens'' := None)
                        else (modelConfig(''maxTokens'' \<mapsto> JNum 10))(''maxCompletionTokens'' := None))
                 in case getProviderConstructor E modelToTest of
                      Inl e \<Rightarrow> Some e
                    | Inr ctor \<Rightarrow>
                        (case construct C ctor pingConfig of
                           Inl e \<Rightarrow> Some e
                         | Inr testModel \<Rightarrow>
                             (case invoke C attempt testModel ''hello'' of
                                Inl e \<Rightarrow> Some e
                              | Inr r \<Rightarrow> None)))))"

definition corsNotice :: string where
  "corsNotice = ''Connection successful, but requires CORS to be enabled. Please enable CORS for this model once you add it above.''"

definition ping_async ::
  "env \<Rightarrow> client \<Rightarrow> CustomModel \<Rightarrow> 'a store_scheme \<Rightarrow> (thrown + bool) \<times> 'a store_scheme" where
  "ping_async E C model s =
     (case tryPing_async E C 0 model False s of
        None \<Rightarrow> (Inr True, s)
      | Some firstError \<Rightarrow>
          (case tryPing_async E C 1 model True s of
             None \<Rightarrow> (Inr True, notice corsNotice s)
           | Some error \<Rightarrow>
               (Inl (newError (''\<newline>without CORS Error: '' @ err2String E firstError
                               @ ''\<newline>with CORS Error: '' @ err2String E error)), s)))"

text \<open>\<open>error.message\<close> of a caught value.\<close>

definition messageOf :: "thrown \<Rightarrow> string" where
  "messageOf e = (case e of Error msg c \<Rightarrow> msg | _ \<Rightarrow> ''undefined'')"

definition setChatModel_async ::
  "env \<Rightarrow> client \<Rightarrow> CustomModel \<Rightarrow> 'a store_scheme \<Rightarrow> thrown option \<times> 'a store_scheme" where
  "setChatModel_async E C model s =
     (let modelKey = getModelKeyFromModel E model
      in case modelMap s modelKey of
           None \<Rightarrow> (Some (newError (''No model found for: '' @ modelKey)), s)
         | Some selectedModel \<Rightarrow>
             if \<not> hasApiKey selectedModel then
               (let errorMessage = ''API key is not provided for the model: '' @ modelKey
                      @ ''. Model switch failed.''
                in (Some (newError errorMessage), notice errorMessage s))
             else
               (case getModelConfig_async E model s of
                  Inl e \<Rightarrow> (Some e, s)
                | Inr (modelConfig, model) \<Rightarrow>
                    (let isO1Preview = isO1PreviewModel (modelName model)
                     in case (if \<not> isO1Preview then ping_async E C model s else (Inr True, s)) of
                          (Inl error, s1) \<Rightarrow>
                            (let errorMessage = ''Failed to initialize model: '' @ modelKey
                                   @ ''. '' @ messageOf error
                             in (Some (newError errorMessage),
                                 (notice errorMessage s1)\<lparr>chatModel := None\<rparr>))
                        | (Inr ok, s1) \<Rightarrow>
                            (let s2 = setModelKey modelKey s1;
                                 streamValue = (case modelConfig ''stream'' of
                                                  None \<Rightarrow> JUndefined | Some v \<Rightarrow> v);
                                 args = (modelConfig(''stream'' := None))
                                          (''streaming'' \<mapsto> streamValue)
                             in case construct C (AIConstructor selectedModel) args of
                                  Inr newModelInstance \<Rightarrow>
                                    (None, s2\<lparr>chatModel := Some newModelInstance\<rparr>)
                                | Inl error \<Rightarrow>
                                    (Some error,
                                     (notice (''Error creating model: '' @ modelKey) s2)
                                       \<lparr>chatModel := None\<rparr>)))))"



text \<open>The message of the error that \<open>setChatModel\<close> of the second manager throws when
  the ping has thrown \<open>error\<close>.\<close>

definition pingFailureMessage :: "env \<Rightarrow> CustomModel \<Rightarrow> thrown \<Rightarrow> string" where
  "pingFailureMessage E model error =
     ''Failed to initialize model: '' @ getModelKeyFromModel E model @ ''. '' @ messageOf error"

section \<open>Example inputs\<close>

text \<open>Concrete values for the parameters and the store, used to run the definitions.\<close>

definition exProviderOf :: "string \<Rightarrow> ChatModelProviders option" where
  "exProviderOf p =
     (if p = ''openai'' then Some OPENAI
      else if p = ''azure openai'' then Some AZURE_OPENAI
      else if p = ''anthropic'' then Some ANTHROPIC
      else None)"

text \<open>The example credential resolver strips the mark \<open>enc_\<close> of an encrypted key and
  leaves any other key as it is.\<close>

definition exDecrypt :: "string \<Rightarrow> string" where
  "exDecrypt k = (if prefix ''enc_'' k then drop 4 k else k)"

definition exErr2String :: "thrown \<Rightarrow> string" where
  "exErr2String e =
     (case e of Error msg c \<Rightarrow> msg | ThrownObject j t \<Rightarrow> j | ThrownPrimitive t \<Rightarrow> t)"

definition exModel :: "string \<Rightarrow> string \<Rightarrow> bool \<Rightarrow> CustomModel" where
  "exModel n p en =
     \<lparr>name = n, modelName = n, provider = p, baseUrl = None, apiKey = None, enabled = en,
      isEmbeddingModel = None, isBuiltIn = None, enableCors = None, core = None,
      stream = None, temperature = None, context_field = None, openAIOrgId = None,
      azureOpenAIApiInstanceName = None, azureOpenAIApiDeploymentName = None,
      azureOpenAIApiVersion = None, azureOpenAIApiEmbeddingDeploymentName = None,
      isO1Preview = None\<rparr>"

definition exEnv :: env where
  "exEnv = \<lparr>providerOf = exProviderOf,
            DEFAULT_SYSTEM_PROMPT = ''You are a helpful assistant.'',
            getDecryptedKey = exDecrypt,
            err2String = exErr2String,
            getModelKeyFromModel = modelKeyOf\<rparr>"

definition exDeployment :: AzureDeployment where
  "exDeployment =
     \<lparr>modelKey = ''gpt-4|azure openai'', modelFamily = ''gpt-4'',
      deploymentName = ''dep-a'', instanceName = ''inst-a'', apiVersion = ''2024-06-01'',
      apiKey = ''enc_secret'', specialSettings = None\<rparr>"

definition exModels :: "CustomModel list" where
  "exModels =
     [exModel ''gpt-4o'' ''openai'' True,
      exModel ''claude'' ''anthropic'' False,
      exModel ''gpt-4'' ''azure openai'' True,
      exModel ''o1-preview'' ''openai'' True,
      exModel ''o1-preview'' ''azure openai'' True]"

definition exSettings :: CopilotSettings where
  "exSettings =
     \<lparr>openAIApiKey = ''sk-global'', openAIOrgId = [], cohereApiKey = [],
      anthropicApiKey = [], modelConfigs = Map.empty,
      azureOpenAIApiKey = ''global-azure-key'',
      azureOpenAIApiInstanceName = ''global-inst'',
      azureOpenAIApiDeploymentName = ''global-dep'',
      azureOpenAIApiVersion = ''2023-05-15'',
      googleApiKey = [], openRouterAiApiKey = [], groqApiKey = [],
      defaultChainType = LLM_CHAIN, defaultModelKey = ''gpt-4o|openai'',
      temperature = 1 / 2, maxTokens = 1000, stream = Some True,
      userSystemPrompt = [], indexVaultToVectorStore = NEVER, debug = False,
      maxSourceChunks = 3, activeModels = Some exModels,
      azureOpenAIApiDeployments = [exDeployment]\<rparr>"

definition exStaleEntry :: RegistryEntry where
  "exStaleEntry = \<lparr>hasApiKey = True, AIConstructor = ChatGroq, vendor = ''groq''\<rparr>"

definition exStore :: store where
  "exStore =
     \<lparr>settings = exSettings, userModelKey = None, userChainType = None,
      chatModel = None, modelMap = [''old|groq'' \<mapsto> exStaleEntry], notices = [],
      BUILTIN_CHAT_MODELS = [exModel ''gpt-4o'' ''openai'' True]\<rparr>"

definition exConstruct :: "ChatConstructorType \<Rightarrow> ModelConfig \<Rightarrow> thrown + BaseChatModel" where
  "exConstruct cls cfg =
     Inr \<lparr>modelClass = cls, ctorArgs = cfg,
          inst_modelName = (case cfg ''modelName'' of Some (JStr n) \<Rightarrow> Some n | _ \<Rightarrow> None),
          inst_model = (case cfg ''model'' of Some (JStr n) \<Rightarrow> Some n | _ \<Rightarrow> None)\<rparr>"

text \<open>Three networks: one that answers, one that answers only a client built with the
  CORS-safe fetch, and one that refuses both attempts.\<close>

definition usesSafeFetch :: "BaseChatModel \<Rightarrow> bool" where
  "usesSafeFetch m =
     (case ctorArgs m ''configuration'' of
        Some (JObj kvs) \<Rightarrow> map_of kvs ''fetch'' = Some (JFun safeFetch)
      | _ \<Rightarrow> False)"



definition exClientDown :: client where
  "exClientDown =
     \<lparr>construct = exConstruct,
      invoke = (\<lambda>n m t. if n = 0 then Inl (newError ''Failed to fetch'')
                        else Inl (newError ''401 Unauthorized''))\<rparr>"






definition exInstance :: "string \<Rightarrow> BaseChatModel" where
  "exInstance n =
     \<lparr>modelClass = ChatOpenAI, ctorArgs = [''modelName'' \<mapsto> JStr n],
      inst_modelName = Some n, inst_model = None\<rparr>"

definition exPrompt :: ChatPromptTemplate where
  "exPrompt = RoleMessage AI_SENDER ''You are a helpful assistant.'' # systemFreePrompt"

text \<open>A manager whose active model is \<open>gpt-4o\<close>, with a plain chain built from the
  selected prompt and a registry built from the active models.\<close>

definition exManager :: manager where
  "exManager =
     \<lparr>settings = exSettings, userModelKey = None, userChainType = None,
      chatModel = Some (exInstance ''gpt-4o''),
      modelMap = modelMap (buildModelMap exEnv exStore), notices = [],
      BUILTIN_CHAT_MODELS = [exModel ''gpt-4o'' ''openai'' True],
      chain = Some (LLMChain (exInstance ''gpt-4o'') exPrompt None),
      retrievalChain = None, chatPrompt = exPrompt\<rparr>"











section \<open>Properties of the registry\<close>

lemma includes_sublist: "str_includes s sub = sublist sub s"
  by (induction s) (auto simp: sublist_Cons_right)

lemma foldl_step_entry:
  "foldl (buildModelMap_step E st) mm ms k = Some e \<Longrightarrow>
     mm k = Some e \<or> (\<exists>m \<in> set ms. enabled m \<and> modelKeyOf m = k)"
proof (induction ms arbitrary: mm)
  case Nil
  then show ?case by simp
next
  case (Cons m ms)
  from Cons.IH [OF Cons.prems [simplified]]
  show ?case
    by (auto simp: buildModelMap_step_def Let_def split: if_splits option.splits)
qed

lemma distinct_key_enabled:
  assumes "distinct (map modelKeyOf ms)" "m \<in> set ms" "m' \<in> set ms"
    and "modelKeyOf m = modelKeyOf m'"
  shows "enabled m = enabled m'"
proof -
  from assms have "m = m'"
    by (meson distinct_map inj_onD)
  then show ?thesis by simp
qed

text \<open>
  C5. After a rebuild from the descriptors \<open>ms\<close>, every entry of the registry stems from
  an enabled descriptor of \<open>ms\<close> with that model key; under the data model's invariant that
  model keys are unique within the active models, no disabled descriptor has an entry;
  and the registry does not depend on the one before the rebuild (it is replaced, not
  merged).
\<close>

theorem buildModelMap_replaces_registry:
  assumes "activeModels (settings s) = Some ms"
  shows "(\<forall>k e. modelMap (buildModelMap E s) k = Some e \<longrightarrow>
            (\<exists>m \<in> set ms. enabled m \<and> modelKeyOf m = k))
       \<and> (distinct (map modelKeyOf ms) \<longrightarrow>
            (\<forall>m \<in> set ms. \<not> enabled m \<longrightarrow> modelMap (buildModelMap E s) (modelKeyOf m) = None))
       \<and> modelMap (buildModelMap E (s\<lparr>modelMap := old\<rparr>)) = modelMap (buildModelMap E s)"
proof -
  let ?r = "modelMap (buildModelMap E s)"
  have r: "?r = foldl (buildModelMap_step E (settings s)) Map.empty ms"
    using assms by (simp add: buildModelMap_def)
  have a: "\<exists>m \<in> set ms. enabled m \<and> modelKeyOf m = k" if "?r k = Some e" for k e
    using foldl_step_entry [of E "settings s" Map.empty ms k e] that r by simp
  have b: "?r (modelKeyOf m) = None"
    if d: "distinct (map modelKeyOf ms)" and m: "m \<in> set ms" and dis: "\<not> enabled m" for m
  proof (cases "?r (modelKeyOf m)")
    case None
    then show ?thesis .
  next
    case (Some e)
    from a [OF Some] obtain m' where "m' \<in> set ms" "enabled m'" "modelKeyOf m' = modelKeyOf m"
      by blast
    with distinct_key_enabled [OF d m, of m'] dis show ?thesis by simp
  qed
  have c: "modelMap (buildModelMap E (s\<lparr>modelMap := old\<rparr>)) = ?r"
    by (simp add: buildModelMap_def Let_def split: option.splits)
  from a b c show ?thesis by blast
qed

theorem buildModelMap_replaces_registry_witness:
  "activeModels (settings exStore) = Some exModels
   \<and> distinct (map modelKeyOf exModels)
   \<and> exModel ''claude'' ''anthropic'' False \<in> set exModels
   \<and> \<not> enabled (exModel ''claude'' ''anthropic'' False)
   \<and> modelMap (buildModelMap exEnv exStore) (modelKeyOf (exModel ''claude'' ''anthropic'' False)) = None
   \<and> modelMap (buildModelMap exEnv (exStore\<lparr>modelMap := Map.empty\<rparr>))
       = modelMap (buildModelMap exEnv exStore)"
proof -
  have h: "activeModels (settings exStore) = Some exModels"
    by (simp add: exStore_def exSettings_def)
  have d: "distinct (map modelKeyOf exModels)"
    by (simp add: exModels_def exModel_def modelKeyOf_def)
  have m: "exModel ''claude'' ''anthropic'' False \<in> set exModels"
    by (simp add: exModels_def)
  have e: "\<not> enabled (exModel ''claude'' ''anthropic'' False)"
    by (simp add: exModel_def)
  from buildModelMap_replaces_registry [OF h, of exEnv Map.empty] d m e h
  show ?thesis by blast
qed

section \<open>Properties of the Azure builder\<close>

lemma find_None_iff_all: "find P xs = None \<longleftrightarrow> (\<forall>x\<in>set xs. \<not> P x)"
  by (induction xs) auto

text \<open>
  C7. For a descriptor whose provider is Azure OpenAI, when no deployment of the settings
  has the current model key, building the configuration throws an error whose message
  says that no Azure deployment was found for the model key, and yields no configuration.
\<close>

theorem getAzureModelConfig_no_deployment:
  assumes "providerOf E (provider model) = Some AZURE_OPENAI"
    and "\<forall>d \<in> set (azureOpenAIApiDeployments (settings s)).
           AzureDeployment.modelKey d \<noteq> getModelKey s"
  shows "getAzureModelConfig E model s
           = Inl (newError (''No Azure deployment found for model: '' @ getModelKey s))
       \<and> modelConfigFor E model s
           = (Inl (newError (''No Azure deployment found for model: '' @ getModelKey s)), s)"
proof -
  from assms(2)
  have "find (\<lambda>d. AzureDeployment.modelKey d = getModelKey s)
          (azureOpenAIApiDeployments (settings s)) = None"
    by (simp add: find_None_iff_all)
  then have "getAzureModelConfig E model s
      = Inl (newError (''No Azure deployment found for model: '' @ getModelKey s))"
    by (simp add: getAzureModelConfig_def Let_def)
  with assms(1) show ?thesis by (simp add: modelConfigFor_def)
qed

theorem getAzureModelConfig_no_deployment_witness:
  "providerOf exEnv (provider (exModel ''gpt-4'' ''azure openai'' True)) = Some AZURE_OPENAI
   \<and> map AzureDeployment.modelKey (azureOpenAIApiDeployments (settings exStore))
       = [''gpt-4|azure openai'']
   \<and> getModelKey exStore = ''gpt-4o|openai''
   \<and> modelConfigFor exEnv (exModel ''gpt-4'' ''azure openai'' True) exStore
       = (Inl (newError ''No Azure deployment found for model: gpt-4o|openai''), exStore)"
proof -
  have p: "providerOf exEnv (provider (exModel ''gpt-4'' ''azure openai'' True)) = Some AZURE_OPENAI"
    by (simp add: exEnv_def exModel_def exProviderOf_def)
  have k: "getModelKey exStore = ''gpt-4o|openai''"
    by (simp add: getModelKey_def exStore_def exSettings_def)
  have d: "\<forall>d \<in> set (azureOpenAIApiDeployments (settings exStore)).
          AzureDeployment.modelKey d \<noteq> getModelKey exStore"
    by (simp add: k) (simp add: exStore_def exSettings_def exDeployment_def)
  have l: "map AzureDeployment.modelKey (azureOpenAIApiDeployments (settings exStore))
       = [''gpt-4|azure openai'']"
    by (simp add: exStore_def exSettings_def exDeployment_def)
  from getAzureModelConfig_no_deployment [OF p d] p l k show ?thesis by simp
qed




section \<open>The reasoning model in the builders\<close>

text \<open>The Azure builder and the builder of the second manager switch streaming off and
  fix the temperature for the reasoning model.\<close>

lemma getAzureModelConfig_o1_preview:
  assumes "name model = ''o1-preview''" "getAzureModelConfig E model s = Inr cfg"
  shows "cfg ''streaming'' = Some (JBool False) \<and> cfg ''temperature'' = Some (JNum 1)"
  using assms by (auto simp: getAzureModelConfig_def Let_def split: option.splits)

lemma getModelConfig_async_o1_preview:
  assumes "isO1PreviewModel (modelName model)" "getModelConfig_async E model s = Inr (cfg, m)"
  shows "cfg ''stream'' = Some (JBool False) \<and> cfg ''temperature'' = Some (JNum 1)"
proof -
  have k: "map_of (rev (providerConfig_async E s c p)) ''stream'' = None"
    "map_of (rev (providerConfig_async E s c p)) ''temperature'' = None" for c p
    by (cases p; simp)+
  from assms show ?thesis
    by (auto simp: getModelConfig_async_def Let_def map_add_def k obj_def
        split: sum.splits option.splits if_splits)
qed

text \<open>
  C2, at a failing input. \<open>getModelConfig\<close> of the first manager, which builds the
  configuration of every model that is not an Azure model, fixes the temperature of an
  \<open>o1-preview\<close> model of provider OpenAI at 1 but leaves \<open>streaming\<close> at its default
  \<open>true\<close>.
\<close>

theorem getModelConfig_o1_preview_streams:
  "\<exists>cfg. fst (getModelConfig exEnv (exModel ''o1-preview'' ''openai'' True) exStore) = Inr cfg
     \<and> cfg ''streaming'' = Some (JBool True) \<and> cfg ''temperature'' = Some (JNum 1)"
  by (simp add: getModelConfig_def Let_def obj_def exModel_def exStore_def exSettings_def
      exEnv_def exProviderOf_def handleAzureOpenAIExtraArgs_def getModelKey_def notice_def
      storedOr_def fetchOf_def truthyFlag_def ofFlag_def ofStr_def orStr_def)

section \<open>Cancellation of the streaming loop\<close>






section \<open>The ping protocol\<close>









lemmas tryPing_eval =
  tryPing_async_def getModelConfig_async_def isO1PreviewModel_def getProviderConstructor_def
  exModel_def exEnv_def exProviderOf_def exConstruct_def usesSafeFetch_def Let_def obj_def
  fetchOf_def truthyFlag_def map_add_def






section \<open>Activation in the second manager\<close>

lemma getModelConfig_async_plain:
  assumes "\<not> isO1PreviewModel (modelName model)"
  shows "\<exists>cfg. getModelConfig_async E model s = Inr (cfg, model)"
  using assms by (simp add: getModelConfig_async_def Let_def)

lemma ping_failure_state:
  assumes "fst (ping_async E C model s) = Inl error"
  shows "ping_async E C model s = (Inl error, s)"
  using assms by (auto simp: ping_async_def split: option.splits)

text \<open>
  C1, amended. When the candidate has a registry entry with an API key, is not a reasoning
  model, and its ping throws, \<open>setChatModel\<close> of the second manager throws
  "Failed to initialize model: ..." with the message of the ping, shows it as a notice and
  sets the active model to absent, so that \<open>getChatModel\<close> throws afterwards; the model
  key and the registry are left as they were. The model that was active before is not kept.
\<close>

theorem setChatModel_async_ping_failure:
  assumes "modelMap s (getModelKeyFromModel E model) = Some selectedModel"
    and "hasApiKey selectedModel"
    and "\<not> isO1PreviewModel (modelName model)"
    and "fst (ping_async E C model s) = Inl error"
  shows "setChatModel_async E C model s
           = (Some (newError (pingFailureMessage E model error)),
              (notice (pingFailureMessage E model error) s)\<lparr>chatModel := None\<rparr>)
       \<and> chatModel (snd (setChatModel_async E C model s)) = None
       \<and> getChatModel (snd (setChatModel_async E C model s))
           = Inl (newError ''No valid chat model available. Please check your API key settings.'')
       \<and> userModelKey (snd (setChatModel_async E C model s)) = userModelKey s
       \<and> modelMap (snd (setChatModel_async E C model s)) = modelMap s"
proof -
  from getModelConfig_async_plain [OF assms(3)] obtain cfg
    where c: "getModelConfig_async E model s = Inr (cfg, model)" by blast
  from ping_failure_state [OF assms(4)] have p: "ping_async E C model s = (Inl error, s)" .
  from assms(1,2,3) c p
  have r: "setChatModel_async E C model s
      = (Some (newError (pingFailureMessage E model error)),
         (notice (pingFailureMessage E model error) s)\<lparr>chatModel := None\<rparr>)"
    by (simp add: setChatModel_async_def Let_def pingFailureMessage_def)
  then show ?thesis
    by (simp add: notice_def getChatModel_def)
qed

lemma exManager_registry:
  "modelMap exManager ''gpt-4|azure openai''
     = Some \<lparr>hasApiKey = True, AIConstructor = ChatOpenAI, vendor = ''azure openai''\<rparr>"
  by (simp add: exManager_def buildModelMap_def exStore_def exSettings_def exModels_def
      exModel_def buildModelMap_step_def exEnv_def exProviderOf_def modelKeyOf_def Let_def
      orStr_def truthy_def)

lemma tryPing_azure_down:
  "tryPing_async exEnv exClientDown 0 (exModel ''gpt-4'' ''azure openai'' True) False exManager
     = Some (newError ''Failed to fetch'')"
  "tryPing_async exEnv exClientDown (Suc 0) (exModel ''gpt-4'' ''azure openai'' True) True exManager
     = Some (newError ''401 Unauthorized'')"
  by (simp_all add: tryPing_eval exClientDown_def)

lemma ping_azure_down:
  "\<exists>msg. fst (ping_async exEnv exClientDown (exModel ''gpt-4'' ''azure openai'' True) exManager)
     = Inl (newError msg)"
  by (simp add: ping_async_def tryPing_azure_down) blast

theorem setChatModel_async_ping_failure_witness:
  "chatModel (snd (setChatModel_async exEnv exClientDown
      (exModel ''gpt-4'' ''azure openai'' True) exManager)) = None
   \<and> userModelKey (snd (setChatModel_async exEnv exClientDown
      (exModel ''gpt-4'' ''azure openai'' True) exManager)) = None"
proof -
  from ping_azure_down obtain msg where
    p: "fst (ping_async exEnv exClientDown (exModel ''gpt-4'' ''azure openai'' True) exManager)
     = Inl (newError msg)" by blast
  have k: "getModelKeyFromModel exEnv (exModel ''gpt-4'' ''azure openai'' True) = ''gpt-4|azure openai''"
    by (simp add: exEnv_def modelKeyOf_def exModel_def)
  have r: "modelMap exManager (getModelKeyFromModel exEnv (exModel ''gpt-4'' ''azure openai'' True))
     = Some \<lparr>hasApiKey = True, AIConstructor = ChatOpenAI, vendor = ''azure openai''\<rparr>"
    by (simp add: k exManager_registry)
  have h: "hasApiKey \<lparr>hasApiKey = True, AIConstructor = ChatOpenAI, vendor = ''azure openai''\<rparr>"
    by simp
  have o: "\<not> isO1PreviewModel (modelName (exModel ''gpt-4'' ''azure openai'' True))"
    by (simp add: isO1PreviewModel_def exModel_def)
  have u: "userModelKey exManager = None" by (simp add: exManager_def)
  from setChatModel_async_ping_failure [OF r h o p, THEN conjunct2] u
  show ?thesis by simp
qed

text \<open>
  C1, as stated, at an example: the active model is \<open>gpt-4o\<close>, the ping of the Azure
  candidate fails in both modes, and after the failed call the active model is no
  longer the one before.
\<close>

theorem setChatModel_async_resets_counterexample:
  "chatModel exManager = Some (exInstance ''gpt-4o'')
   \<and> (\<exists>msg. fst (ping_async exEnv exClientDown (exModel ''gpt-4'' ''azure openai'' True) exManager)
          = Inl (newError msg))
   \<and> chatModel (snd (setChatModel_async exEnv exClientDown
        (exModel ''gpt-4'' ''azure openai'' True) exManager)) \<noteq> chatModel exManager"
proof -
  have a: "chatModel exManager = Some (exInstance ''gpt-4o'')" by (simp add: exManager_def)
  from ping_azure_down obtain msg where
    p: "fst (ping_async exEnv exClientDown (exModel ''gpt-4'' ''azure openai'' True) exManager)
     = Inl (newError msg)" by blast
  then have q: "ping_async exEnv exClientDown (exModel ''gpt-4'' ''azure openai'' True) exManager
     = (Inl (newError msg), exManager)" by (rule ping_failure_state)
  have k: "getModelKeyFromModel exEnv (exModel ''gpt-4'' ''azure openai'' True) = ''gpt-4|azure openai''"
    by (simp add: exEnv_def modelKeyOf_def exModel_def)
  have o: "\<not> isO1PreviewModel (modelName (exModel ''gpt-4'' ''azure openai'' True))"
    by (simp add: isO1PreviewModel_def exModel_def)
  from getModelConfig_async_plain [OF o] obtain cfg where
    c: "getModelConfig_async exEnv (exModel ''gpt-4'' ''azure openai'' True) exManager
          = Inr (cfg, exModel ''gpt-4'' ''azure openai'' True)" by blast
  have "chatModel (snd (setChatModel_async exEnv exClientDown
        (exModel ''gpt-4'' ''azure openai'' True) exManager)) = None"
    by (simp add: setChatModel_async_def Let_def k exManager_registry c o q)
  with a p show ?thesis by auto
qed

section \<open>The prompt substitution of a turn\<close>












section \<open>Failures of a turn\<close>








section \<open>Rebuilding the model and the chain\<close>























end
